theory Spec2Isabelle
  imports Main "HOL-Library.Word"
begin

section \<open>The wire protocol (package shared)\<close>

text \<open>
  \<^verbatim>\<open>var ACTIONS = map[string]bool{"connection": true, "join": true, ...}\<close>
  A Go map from action names to \<open>true\<close>. Reading a missing key of a Go map of
  booleans gives \<open>false\<close>, so an action is recognized when the map holds \<open>true\<close> for it.
\<close>

definition ACTIONS :: "string \<rightharpoonup> bool" where
  "ACTIONS = map_of
     [(''connection'', True),
      (''join'', True),
      (''leave'', True),
      (''error'', True),
      (''private_message'', True),
      (''room_message'', True),
      (''rooms'', True),
      (''participants'', True)]"

definition recognized :: "string \<Rightarrow> bool" where
  "recognized a = (case ACTIONS a of Some b \<Rightarrow> b | None \<Rightarrow> False)"

text \<open>
  \<^verbatim>\<open>type SystemMessage struct { Action string `json:"action"`; UserId string
  `json:"user_id,omitempty"`; ... }\<close>
  The one message type of the protocol. A Go slice is modelled by the list of its
  elements (a nil slice and an empty one are both \<open>[]\<close>).
\<close>

record SystemMessage =
  Action :: string
  UserId :: string
  Room :: string
  Message :: string
  Rooms :: "string list"
  Participants :: "string list"

text \<open>
  The JSON object that the struct tags of \<open>SystemMessage\<close> make Go's encoder write:
  one member per field, under the tag's key, in field order; a field tagged
  \<open>omitempty\<close> is left out when it is the empty string or a slice of length 0.
\<close>

datatype json = JString string | JArray "string list"

definition Marshal :: "SystemMessage \<Rightarrow> (string \<times> json) list" where
  "Marshal m =
     [(''action'', JString (Action m))] @
     (if UserId m = [] then [] else [(''user_id'', JString (UserId m))]) @
     (if Room m = [] then [] else [(''room'', JString (Room m))]) @
     (if Message m = [] then [] else [(''message'', JString (Message m))]) @
     (if Rooms m = [] then [] else [(''rooms'', JArray (Rooms m))]) @
     (if Participants m = [] then [] else [(''participants'', JArray (Participants m))])"

section \<open>Decimal formatting of the counter (strconv.Itoa)\<close>

text \<open>
  \<open>strconv.Itoa\<close> writes an \<open>int\<close> in base 10: the digits of its magnitude, most
  significant first, taken from the digit table by index, after a minus sign when the
  value is negative.
\<close>

definition digits :: string where
  "digits = ''0123456789''"

fun formatBits :: "nat \<Rightarrow> string" where
  "formatBits u =
     (if u < 10 then [digits ! u] else formatBits (u div 10) @ [digits ! (u mod 10)])"

declare formatBits.simps [simp del]

definition Itoa :: "int \<Rightarrow> string" where
  "Itoa i = (if i < 0 then CHR ''-'' # formatBits (nat (- i)) else formatBits (nat i))"

section \<open>The server (package main)\<close>

text \<open>
  A Go \<open>error\<close> is modelled by its message, and \<open>nil\<close> by \<open>None\<close>. A
  \<open>*websocket.Conn\<close> is modelled by the address of the connection object, \<open>nil\<close> by
  \<open>None\<close>. A \<open>chan string\<close> is modelled by the strings queued in it; \<open>make(chan string)\<close>
  gives an empty one.

  Field names that are taken already (by \<open>SystemMessage\<close> or by HOL's \<open>Id\<close>) carry a
  suffix: \<open>_u\<close> for \<open>UserData\<close>, \<open>_r\<close> for \<open>RoomData\<close>, \<open>_s\<close> for \<open>Server\<close>; the local
  variable \<open>Id\<close> is written \<open>Id'\<close>.
  The mutexes (\<open>RoomData.Lock\<close>, \<open>RoomsLock\<close>, \<open>UsersLock\<close>) hold no data and the
  \<open>ConnectionUpgrader\<close> is configuration; they are not fields of the model. What the
  upgrader answers to a request is an input of the functions below.
\<close>

type_synonym error = string
type_synonym conn = nat

record UserData =
  Id_u :: string
  Room_u :: string
  Connection :: "conn option"
  Channel_u :: "string list"

record RoomData =
  Id_r :: string
  Channel_r :: "string list"
  Participants_r :: "string list"

text \<open>
  \<open>NextId\<close> is a Go \<open>int\<close>, 64 bits wide on the platforms the repository names
  (\<open>windows/amd64\<close>, \<open>linux/amd64\<close>): \<open>+= 1\<close> wraps around, and \<open>sint\<close> reads the value
  as the signed number that \<open>strconv.Itoa\<close> prints.
\<close>

record Server =
  NextId :: "64 word"
  Rooms_s :: "string \<rightharpoonup> RoomData"
  Users :: "string \<rightharpoonup> UserData"

text \<open>
  The result of \<open>server.ConnectionUpgrader.Upgrade(w, r, nil)\<close>: the new connection and a
  nil error, or a nil connection and the error of the failed handshake.
\<close>

datatype upgrade = Upgraded conn | UpgradeFailed error

text \<open>What a handler does to the transport, in order.\<close>

datatype event = Close conn | WriteJSON conn SystemMessage

text \<open>A call returns a value, or panics (a method call through a nil pointer).\<close>

datatype 'a result = Return 'a | Panic

text \<open>
  \<^verbatim>\<open>
  func AcceptConnection(server *Server, w http.ResponseWriter, r *http.Request) (string, error) {
      server.UsersLock.Lock()
      defer server.UsersLock.Unlock()
      Id := strconv.Itoa(server.NextId)
      server.NextId += 1
      Data := UserData{Id: Id, Channel: make(chan string)}
      var err error
      Data.Connection, err = server.ConnectionUpgrader.Upgrade(w, r, nil)
      if err != nil { return Id, err }
      server.Users[Id] = Data
      return Id, nil
  }\<close>
  The whole body runs with \<open>UsersLock\<close> held, so calls from concurrent handlers happen
  one after another: the function is one atomic step on the server's state.
\<close>

definition AcceptConnection :: "Server \<Rightarrow> upgrade \<Rightarrow> Server \<times> string \<times> error option" where
  "AcceptConnection server up =
     (let Id' = Itoa (sint (NextId server));
          server1 = server\<lparr>NextId := NextId server + 1\<rparr>;
          Data = \<lparr>Id_u = Id', Room_u = [], Connection = None, Channel_u = []\<rparr>
      in case up of
           UpgradeFailed err \<Rightarrow> (server1, Id', Some err)
         | Upgraded c \<Rightarrow>
             (server1\<lparr>Users := (Users server1)(Id' \<mapsto> Data\<lparr>Connection := Some c\<rparr>)\<rparr>,
              Id', None))"

text \<open>
  \<^verbatim>\<open>
  func ManageConnection(server *Server, w http.ResponseWriter, r *http.Request) error {
      Id, err := AcceptConnection(server, w, r)
      if err != nil { return err }
      defer server.Users[Id].Connection.Close()
      return nil
  }\<close>
  The deferred call runs when the function returns, which is at once. Reading a key that
  the map does not hold gives the zero \<open>UserData\<close>, whose \<open>Connection\<close> is nil; \<open>Close\<close>
  through a nil connection panics.
\<close>

definition ManageConnection :: "Server \<Rightarrow> upgrade \<Rightarrow> Server \<times> event list \<times> error option result" where
  "ManageConnection server up =
     (case AcceptConnection server up of
        (server1, Id', Some err) \<Rightarrow> (server1, [], Return (Some err))
      | (server1, Id', None) \<Rightarrow>
          (case Users server1 Id' of
             None \<Rightarrow> (server1, [], Panic)
           | Some Data \<Rightarrow>
               (case Connection Data of
                  None \<Rightarrow> (server1, [], Panic)
                | Some c \<Rightarrow> (server1, [Close c], Return None))))"

text \<open>
  \<^verbatim>\<open>
  func NewServer() *Server {
      server := new(Server)
      server.Rooms = make(map[string]RoomData)
      server.Users = make(map[string]UserData)
      ...
      http.HandleFunc(shared.ENDPOINT, func(w, r) { ManageConnection(server, w, r) })
      return server
  }\<close>
  \<open>new(Server)\<close> zeroes every field, so the counter starts at 0.
\<close>

definition NewServer :: Server where
  "NewServer = \<lparr>NextId = 0, Rooms_s = Map.empty, Users = Map.empty\<rparr>"

text \<open>
  The server's life is a sequence of requests to the endpoint, each answered by
  \<open>ManageConnection\<close>. \<open>serve\<close> is the server after such a sequence, \<open>connects\<close> lists
  what the \<open>AcceptConnection\<close> of each request returned, and \<open>transport\<close> what the
  handlers did to the connections. Handlers are taken one at a time, in the order in
  which they get the lock; the handler passed to \<open>http.HandleFunc\<close> drops the error that
  \<open>ManageConnection\<close> returns.
\<close>

fun serve :: "Server \<Rightarrow> upgrade list \<Rightarrow> Server" where
  "serve server [] = server"
| "serve server (up # ups) = serve (fst (ManageConnection server up)) ups"

fun connects :: "Server \<Rightarrow> upgrade list \<Rightarrow> (string \<times> error option) list" where
  "connects server [] = []"
| "connects server (up # ups) =
     snd (AcceptConnection server up) # connects (fst (AcceptConnection server up)) ups"

fun transport :: "Server \<Rightarrow> upgrade list \<Rightarrow> event list" where
  "transport server [] = []"
| "transport server (up # ups) =
     fst (snd (ManageConnection server up)) @ transport (fst (ManageConnection server up)) ups"

fun succeeded :: "upgrade \<Rightarrow> bool" where
  "succeeded (Upgraded c) = True"
| "succeeded (UpgradeFailed err) = False"

text \<open>
  \<^verbatim>\<open>
  func ReadJSON(connection *websocket.Conn) (shared.SystemMessage, error) {
      var Msg shared.SystemMessage
      err := connection.ReadJSON(&Msg)
      return Msg, err
  }\<close>
  The connection's own \<open>ReadJSON\<close> fills the message it is given and returns an error
  or nil; what it did to the next frame is the input here.
\<close>

definition ReadJSON :: "SystemMessage \<times> error option \<Rightarrow> SystemMessage \<times> error option" where
  "ReadJSON read = (let Msg = fst read; err = snd read in (Msg, err))"

section \<open>The router (modelled from the specification)\<close>

text \<open>
  The server above never reads a frame and never writes one: \<open>ReadJSON\<close> has no caller,
  \<open>ACTIONS\<close> is never consulted, and nothing sets \<open>UserData.Room\<close> or fills \<open>Rooms\<close>.
  The room broadcast below is therefore written from the specification, over the
  source's own types: a session has no room when its \<open>Room\<close> is the empty string (as
  \<open>AcceptConnection\<close> leaves it), and a room's members are its \<open>Participants\<close>.
  A delivery is a pair of the receiving session's identity and the message.
\<close>

text \<open>
  Modelled from the spec: the \<open>error\<close>-action message of section 7, "an error-action
  message back to the originating session only, with a human-readable message". The
  source declares the action and the fields but builds no such message.
\<close>

definition error_message :: "string \<Rightarrow> SystemMessage" where
  "error_message text =
     \<lparr>Action = ''error'', UserId = [], Room = [], Message = text, Rooms = [], Participants = []\<rparr>"

text \<open>
  Modelled from the spec: the fan-out of section 4.3 and the glossary, "delivering one
  message to every member of a room except the sender". The source has no such loop.
\<close>

fun fan_out :: "string \<Rightarrow> SystemMessage \<Rightarrow> string list \<Rightarrow> (string \<times> SystemMessage) list" where
  "fan_out sender msg [] = []"
| "fan_out sender msg (member # members) =
     (if member = sender then fan_out sender msg members
      else (member, msg) # fan_out sender msg members)"

text \<open>
  Modelled from the spec: \<open>RoomMessage(sender, body)\<close> of section 4.3, which the source
  does not contain: "if sender has no current room, responds with a not-in-room error.
  Otherwise fans body out to every other member of the sender's room (sender excluded
  from receiving its own broadcast back) and confirms to the sender which room and body
  were broadcast." The result is the response to the sender and the fan-out. The
  broadcast message is the one of scenario C, \<open>room_message{room, message}\<close>, and the
  error text the one of the not-in-room error of the design document.
\<close>

definition RoomMessage :: "Server \<Rightarrow> string \<Rightarrow> string \<Rightarrow> SystemMessage \<times> (string \<times> SystemMessage) list" where
  "RoomMessage server sender body =
     (let room = (case Users server sender of None \<Rightarrow> [] | Some u \<Rightarrow> Room_u u);
          members = (case Rooms_s server room of None \<Rightarrow> [] | Some r \<Rightarrow> Participants_r r);
          msg = \<lparr>Action = ''room_message'', UserId = [], Room = room, Message = body,
                 Rooms = [], Participants = []\<rparr>
      in if room = [] then (error_message ''user is not in a room'', [])
         else (msg, fan_out sender msg members))"

text \<open>
  A state for trying the room broadcast out: sessions \<open>''0''\<close>, \<open>''1''\<close> and \<open>''2''\<close> on connections
  10, 11 and 12, all three in room \<open>''lobby''\<close>. (The server above reaches no state with a
  room.)
\<close>

definition lobby_server :: Server where
  "lobby_server =
     \<lparr>NextId = 3,
      Rooms_s = [''lobby'' \<mapsto>
        \<lparr>Id_r = ''lobby'', Channel_r = [], Participants_r = [''0'', ''1'', ''2'']\<rparr>],
      Users =
        [''0'' \<mapsto> \<lparr>Id_u = ''0'', Room_u = ''lobby'', Connection = Some 10, Channel_u = []\<rparr>,
         ''1'' \<mapsto> \<lparr>Id_u = ''1'', Room_u = ''lobby'', Connection = Some 11, Channel_u = []\<rparr>,
         ''2'' \<mapsto> \<lparr>Id_u = ''2'', Room_u = ''lobby'', Connection = Some 12, Channel_u = []\<rparr>]\<rparr>"

section \<open>Reading a decimal string back\<close>

text \<open>The inverse of \<open>formatBits\<close>, used to show that \<open>Itoa\<close> is injective.\<close>

definition parseUint :: "string \<Rightarrow> nat" where
  "parseUint s = foldl (\<lambda>a c. 10 * a + (of_char c - 48)) 0 s"

section \<open>Facts about the decimal format\<close>

lemma digit_code: "u < 10 \<Longrightarrow> of_char (digits ! u) = (48::nat) + u"
proof -
  assume "u < 10"
  then have "u = 0 \<or> u = 1 \<or> u = 2 \<or> u = 3 \<or> u = 4 \<or> u = 5 \<or> u = 6 \<or> u = 7 \<or> u = 8 \<or> u = 9"
    by arith
  then show ?thesis
    by (elim disjE) (simp_all add: digits_def)
qed

lemma parseUint_formatBits: "parseUint (formatBits u) = u"
proof (induction u rule: formatBits.induct)
  case (1 u)
  show ?case
  proof (cases "u < 10")
    case True
    then show ?thesis
      by (subst formatBits.simps) (simp add: parseUint_def digit_code)
  next
    case False
    have m: "u mod 10 < 10" by simp
    from False 1 have ih: "parseUint (formatBits (u div 10)) = u div 10" by simp
    have "parseUint (formatBits u) = 10 * parseUint (formatBits (u div 10)) + u mod 10"
      using False by (subst formatBits.simps) (simp add: parseUint_def digit_code [OF m])
    with ih show ?thesis by simp
  qed
qed

lemma formatBits_inj: "formatBits u = formatBits v \<Longrightarrow> u = v"
  by (metis parseUint_formatBits)

lemma minus_not_digit: "u < 10 \<Longrightarrow> digits ! u \<noteq> CHR ''-''"
proof
  assume "u < 10" and "digits ! u = CHR ''-''"
  then have "(48::nat) + u = of_char (CHR ''-'')" using digit_code by metis
  then show False by simp
qed

lemma formatBits_no_minus: "CHR ''-'' \<notin> set (formatBits u)"
proof (induction u rule: formatBits.induct)
  case (1 u)
  show ?case
  proof (cases "u < 10")
    case True
    then show ?thesis
      using minus_not_digit [OF True] by (subst formatBits.simps) auto
  next
    case False
    have m: "u mod 10 < 10" by simp
    from False 1 have "CHR ''-'' \<notin> set (formatBits (u div 10))" by simp
    then show ?thesis
      using False minus_not_digit [OF m] by (subst formatBits.simps) auto
  qed
qed

lemma Itoa_inj: "Itoa i = Itoa j \<Longrightarrow> i = j"
proof -
  assume eq: "Itoa i = Itoa j"
  have neg: "CHR ''-'' \<in> set (Itoa k) \<longleftrightarrow> k < 0" for k
    using formatBits_no_minus by (simp add: Itoa_def)
  from eq neg have same: "i < 0 \<longleftrightarrow> j < 0" by metis
  show ?thesis
  proof (cases "i < 0")
    case True
    with same eq have "formatBits (nat (- i)) = formatBits (nat (- j))" by (simp add: Itoa_def)
    then have "nat (- i) = nat (- j)" by (rule formatBits_inj)
    with True same show ?thesis by simp
  next
    case False
    with same eq have "formatBits (nat i) = formatBits (nat j)" by (simp add: Itoa_def)
    then have "nat i = nat j" by (rule formatBits_inj)
    with False same show ?thesis by simp
  qed
qed

lemma Itoa_0: "Itoa 0 = ''0''"
  by code_simp

lemma Itoa_1: "Itoa 1 = ''1''"
  by code_simp

lemma Itoa_2: "Itoa 2 = ''2''"
  by code_simp

section \<open>Facts about the 64-bit counter\<close>

lemma of_nat_inj64:
  "m < 2 ^ 64 \<Longrightarrow> n < 2 ^ 64 \<Longrightarrow> (word_of_nat m :: 64 word) = word_of_nat n \<Longrightarrow> m = n"
proof -
  assume m: "m < 2 ^ 64" and n: "n < 2 ^ 64"
    and eq: "(word_of_nat m :: 64 word) = word_of_nat n"
  from eq have "unat (word_of_nat m :: 64 word) = unat (word_of_nat n :: 64 word)" by simp
  then have "m mod 2 ^ 64 = n mod 2 ^ 64" by (simp add: unat_of_nat)
  with m n show ?thesis by simp
qed

lemma sint_of_nat64: "n < 2 ^ 63 \<Longrightarrow> sint (word_of_nat n :: 64 word) = int n"
proof -
  assume n: "n < 2 ^ 63"
  then have i: "int n < 2 ^ 63" by (metis of_nat_less_iff of_nat_numeral of_nat_power)
  from n have "unat (word_of_nat n :: 64 word) = n" by (simp add: unat_of_nat)
  then have u: "uint (word_of_nat n :: 64 word) = int n" by (metis uint_nat)
  have "sint (word_of_nat n :: 64 word) = signed_take_bit 63 (int n)"
    using u by (simp add: sint_uint)
  also have "\<dots> = int n"
    using i by (simp add: signed_take_bit_int_eq_self_iff)
  finally show ?thesis .
qed

section \<open>One call of AcceptConnection and of ManageConnection\<close>

lemma AcceptConnection_Id:
  "fst (snd (AcceptConnection server up)) = Itoa (sint (NextId server))"
  by (cases up) (simp_all add: AcceptConnection_def Let_def)

lemma AcceptConnection_NextId:
  "NextId (fst (AcceptConnection server up)) = NextId server + 1"
  by (cases up) (simp_all add: AcceptConnection_def Let_def)

lemma AcceptConnection_err:
  "snd (snd (AcceptConnection server up)) =
     (case up of Upgraded c \<Rightarrow> None | UpgradeFailed err \<Rightarrow> Some err)"
  by (cases up) (simp_all add: AcceptConnection_def Let_def)

lemma AcceptConnection_Rooms:
  "Rooms_s (fst (AcceptConnection server up)) = Rooms_s server"
  by (cases up) (simp_all add: AcceptConnection_def Let_def)

lemma AcceptConnection_Users:
  "Users (fst (AcceptConnection server up)) =
     (case up of
        UpgradeFailed err \<Rightarrow> Users server
      | Upgraded c \<Rightarrow> (Users server)(Itoa (sint (NextId server)) \<mapsto>
          \<lparr>Id_u = Itoa (sint (NextId server)), Room_u = [], Connection = Some c,
           Channel_u = []\<rparr>))"
  by (cases up) (simp_all add: AcceptConnection_def Let_def)

lemma ManageConnection_server:
  "fst (ManageConnection server up) = fst (AcceptConnection server up)"
  by (cases up) (simp_all add: ManageConnection_def AcceptConnection_def Let_def)

lemma ManageConnection_Upgraded:
  "snd (ManageConnection server (Upgraded c)) = ([Close c], Return None)"
  by (simp add: ManageConnection_def AcceptConnection_def Let_def)

lemma ManageConnection_UpgradeFailed:
  "snd (ManageConnection server (UpgradeFailed err)) = ([], Return (Some err))"
  by (simp add: ManageConnection_def AcceptConnection_def Let_def)

text \<open>
  The entry that \<open>ManageConnection\<close> looks up is the one \<open>AcceptConnection\<close> has just
  stored, so the deferred \<open>Close\<close> never goes through a nil connection.
\<close>

lemma ManageConnection_no_panic: "snd (snd (ManageConnection server up)) \<noteq> Panic"
  by (cases up) (simp_all add: ManageConnection_Upgraded ManageConnection_UpgradeFailed)

section \<open>Sequences of requests\<close>

lemma connects_length: "length (connects server ups) = length ups"
  by (induction ups arbitrary: server) simp_all

text \<open>
  The k-th request of a sequence is given the decimal form of the counter's start value
  plus k, whether its handshake succeeds or not.
\<close>

lemma connects_ids:
  "map fst (connects server ups) =
     map (\<lambda>k. Itoa (sint (NextId server + word_of_nat k))) [0..<length ups]"
proof (induction ups arbitrary: server)
  case Nil
  show ?case by simp
next
  case (Cons up ups)
  have idx: "[0..<length (up # ups)] = 0 # map Suc [0..<length ups]"
    by (simp add: upt_conv_Cons map_Suc_upt del: upt_Suc)
  have shift: "NextId server + 1 + word_of_nat k = NextId server + word_of_nat (Suc k)" for k
    by simp
  show ?case
    unfolding idx
    by (simp add: Cons.IH AcceptConnection_Id AcceptConnection_NextId shift comp_def
        del: of_nat_Suc)
qed

lemma connects_errors:
  "list_all succeeded ups \<Longrightarrow> map snd (connects server ups) = replicate (length ups) None"
proof (induction ups arbitrary: server)
  case Nil
  show ?case by simp
next
  case (Cons up ups)
  then show ?case
    by (cases up) (simp_all add: AcceptConnection_err)
qed

lemma serve_Rooms: "Rooms_s (serve server ups) = Rooms_s server"
  by (induction ups arbitrary: server)
    (simp_all add: ManageConnection_server AcceptConnection_Rooms)

lemma serve_Users_mono: "dom (Users server) \<subseteq> dom (Users (serve server ups))"
proof (induction ups arbitrary: server)
  case Nil
  show ?case by simp
next
  case (Cons up ups)
  have "dom (Users server) \<subseteq> dom (Users (fst (ManageConnection server up)))"
    by (cases up) (auto simp: ManageConnection_server AcceptConnection_Users)
  also have "\<dots> \<subseteq> dom (Users (serve (fst (ManageConnection server up)) ups))"
    by (rule Cons.IH)
  finally show ?case by simp
qed

text \<open>No handler ever writes a message to a connection.\<close>

lemma transport_no_write: "WriteJSON c m \<notin> set (transport server ups)"
proof (induction ups arbitrary: server)
  case Nil
  show ?case by simp
next
  case (Cons up ups)
  then show ?case
    by (cases up) (simp_all add: ManageConnection_Upgraded ManageConnection_UpgradeFailed)
qed

section \<open>Session identities\<close>

text \<open>
  Claim C1. In a sequence of connects that all succeed, starting from the new server,
  the n-th connect (counted from 1) is given the decimal string of n - 1 and a nil
  error: the first one \<open>''0''\<close>, each later one the previous identity plus one. The
  identity is the decimal form of \<open>NextId\<close> when the connect is made
  (\<open>AcceptConnection_Id\<close>). The counter is a 64-bit \<open>int\<close>, and the statement is for
  the sequences that do not exhaust its positive range, that is of at most \<open>2 ^ 63\<close>
  connects; every registered session keeps its entry in \<open>Users\<close>, so no process can
  hold more.
\<close>

theorem connect_identities_sequential:
  assumes "list_all succeeded ups" and "length ups \<le> 2 ^ 63"
  shows "connects NewServer ups = map (\<lambda>n. (Itoa (int n), None)) [0..<length ups]"
proof -
  have ids: "map fst (connects NewServer ups) = map (\<lambda>n. Itoa (int n)) [0..<length ups]"
  proof -
    have "Itoa (sint (NextId NewServer + word_of_nat k)) = Itoa (int k)"
      if "k < length ups" for k
    proof -
      from that assms(2) have "k < 2 ^ 63" by simp
      then show ?thesis by (simp add: NewServer_def sint_of_nat64)
    qed
    then show ?thesis by (simp add: connects_ids)
  qed
  have errs: "map snd (connects NewServer ups) = map (\<lambda>n. None) [0..<length ups]"
    using assms(1) by (simp add: connects_errors map_replicate_const)
  show ?thesis
  proof (rule nth_equalityI)
    show "length (connects NewServer ups) =
        length (map (\<lambda>n. (Itoa (int n), None)) [0..<length ups])"
      by (simp add: connects_length)
  next
    fix i assume i: "i < length (connects NewServer ups)"
    then have il: "i < length ups" by (simp add: connects_length)
    from ids i have "fst (connects NewServer ups ! i) = Itoa (int i)"
      by (metis (no_types, lifting) add_0 il length_map nth_map nth_upt)
    moreover from errs i have "snd (connects NewServer ups ! i) = None"
      by (metis (no_types, lifting) il length_map nth_map length_upt diff_zero)
    ultimately show "connects NewServer ups ! i =
        map (\<lambda>n. (Itoa (int n), None)) [0..<length ups] ! i"
      using il by (simp add: prod_eq_iff)
  qed
qed

theorem connect_identities_sequential_witness:
  "list_all succeeded [Upgraded 5, Upgraded 9, Upgraded 2] \<and>
   length [Upgraded 5, Upgraded 9, Upgraded 2] \<le> 2 ^ 63 \<and>
   connects NewServer [Upgraded 5, Upgraded 9, Upgraded 2] =
     [(''0'', None), (''1'', None), (''2'', None)]"
  using connect_identities_sequential [of "[Upgraded 5, Upgraded 9, Upgraded 2]"]
  by (simp add: upt_rec Itoa_0 Itoa_1 Itoa_2)

text \<open>
  Claim C5. Two different connects of one process lifetime are never given the same
  identity, whether their handshakes succeed or fail: the identities handed out by a
  sequence of requests to the new server are pairwise distinct. The counter only moves
  forward by one per call, under the lock that makes each call atomic; being 64 bits
  wide it would come back to an old value only after \<open>2 ^ 64\<close> connects, and the
  statement is for the sequences shorter than that.
\<close>

theorem connect_identities_distinct:
  assumes "length ups \<le> 2 ^ 64"
  shows "distinct (map fst (connects NewServer ups))"
proof -
  have inj: "inj_on (\<lambda>k. Itoa (sint (NextId NewServer + word_of_nat k))) (set [0..<length ups])"
  proof (rule inj_onI)
    fix j k
    assume j: "j \<in> set [0..<length ups]" and k: "k \<in> set [0..<length ups]"
      and eq: "Itoa (sint (NextId NewServer + word_of_nat j)) =
               Itoa (sint (NextId NewServer + word_of_nat k))"
    from j k assms have b: "j < 2 ^ 64" "k < 2 ^ 64" by simp_all
    from eq have "sint (NextId NewServer + word_of_nat j) =
        sint (NextId NewServer + word_of_nat k)"
      by (rule Itoa_inj)
    then have "NextId NewServer + word_of_nat j = NextId NewServer + word_of_nat k"
      by (rule signed_word_eqI)
    then have "(word_of_nat j :: 64 word) = word_of_nat k" by simp
    with b show "j = k" by (rule of_nat_inj64)
  qed
  then show ?thesis
    by (simp add: connects_ids distinct_map)
qed

theorem connect_identities_distinct_witness:
  "length [Upgraded 5, UpgradeFailed ''bad handshake'', Upgraded 2] \<le> 2 ^ 64 \<and>
   distinct (map fst (connects NewServer [Upgraded 5, UpgradeFailed ''bad handshake'', Upgraded 2]))"
  using connect_identities_distinct [of "[Upgraded 5, UpgradeFailed ''bad handshake'', Upgraded 2]"]
  by simp


section \<open>Failed handshakes\<close>

text \<open>
  Claim C4. A connect returns an error exactly when the websocket upgrade returned one,
  and then the \<open>Users\<close> map is the one from before the call: no entry is added for the
  new identity and the registered sessions are unchanged.
\<close>

theorem failed_connect_registers_nothing:
  "(snd (snd (AcceptConnection server up)) \<noteq> None \<longleftrightarrow> \<not> succeeded up) \<and>
   (snd (snd (AcceptConnection server up)) \<noteq> None \<longrightarrow>
      Users (fst (AcceptConnection server up)) = Users server)"
  by (cases up) (simp_all add: AcceptConnection_err AcceptConnection_Users)

theorem failed_connect_registers_nothing_witness:
  "snd (snd (AcceptConnection NewServer (UpgradeFailed ''bad handshake''))) = Some ''bad handshake'' \<and>
   \<not> succeeded (UpgradeFailed ''bad handshake'') \<and>
   Users (fst (AcceptConnection NewServer (UpgradeFailed ''bad handshake''))) = Users NewServer \<and>
   Users NewServer = Map.empty"
  using failed_connect_registers_nothing [of NewServer "UpgradeFailed ''bad handshake''"]
  by (simp add: AcceptConnection_err NewServer_def)

text \<open>
  Claim C9. A connect whose handshake fails still advances the counter by one and
  registers nothing, so the identity it was given is never registered: after a
  successful, a failed and another successful connect on the new server the registered
  identities are \<open>''0''\<close> and \<open>''2''\<close>, which are not consecutive.
\<close>

theorem failed_connect_consumes_identity:
  "NextId (fst (AcceptConnection server (UpgradeFailed err))) = NextId server + 1 \<and>
   Users (fst (AcceptConnection server (UpgradeFailed err))) = Users server \<and>
   connects NewServer [Upgraded a, UpgradeFailed err, Upgraded c] =
     [(''0'', None), (''1'', Some err), (''2'', None)] \<and>
   dom (Users (serve NewServer [Upgraded a, UpgradeFailed err, Upgraded c])) = {''0'', ''2''}"
proof -
  have one: "sint (1 :: 64 word) = 1" by simp
  have two: "sint (1 + 1 :: 64 word) = 2" by simp
  have "connects NewServer [Upgraded a, UpgradeFailed err, Upgraded c] =
     [(''0'', None), (''1'', Some err), (''2'', None)]"
    by (simp add: prod_eq_iff AcceptConnection_Id AcceptConnection_NextId AcceptConnection_err
        NewServer_def Itoa_0 Itoa_1 Itoa_2 one two)
  moreover have "dom (Users (serve NewServer [Upgraded a, UpgradeFailed err, Upgraded c])) =
      {''0'', ''2''}"
    by (simp add: ManageConnection_server AcceptConnection_Users AcceptConnection_NextId
        NewServer_def Itoa_0 Itoa_2 two insert_commute)
  ultimately show ?thesis
    by (simp add: AcceptConnection_NextId AcceptConnection_Users)
qed

section \<open>The room registry\<close>

text \<open>
  Claim C10. The \<open>Rooms\<close> map is created empty, neither \<open>AcceptConnection\<close> nor
  \<open>ManageConnection\<close> changes it, and so it is empty in every state the server reaches
  by serving requests. (With no room in the registry, the invariant that every
  registered room has a member has nothing to say.)
\<close>

theorem rooms_always_empty:
  "Rooms_s NewServer = Map.empty \<and>
   Rooms_s (fst (AcceptConnection server up)) = Rooms_s server \<and>
   Rooms_s (fst (ManageConnection server up)) = Rooms_s server \<and>
   Rooms_s (serve NewServer ups) = Map.empty"
  by (simp add: serve_Rooms ManageConnection_server AcceptConnection_Rooms NewServer_def)

section \<open>What a connection handler does after the handshake\<close>

text \<open>
  Claim C2. The claim (and the design document's "Connecting to Server") has the relay
  answer a successful handshake with a \<open>connection\<close> message that carries the new
  identity. \<open>ManageConnection\<close> does not: on the new server, a request whose upgrade
  gives connection 7 registers session \<open>''0''\<close>, closes the connection and returns nil,
  and nothing is written to the connection.
\<close>

theorem ManageConnection_writes_no_connection_message:
  "ManageConnection NewServer (Upgraded 7) =
     (\<lparr>NextId = 1, Rooms_s = Map.empty,
       Users = [''0'' \<mapsto> \<lparr>Id_u = ''0'', Room_u = [], Connection = Some 7, Channel_u = []\<rparr>]\<rparr>,
      [Close 7], Return None) \<and>
   (\<forall>m. WriteJSON 7 m \<notin> set (transport NewServer [Upgraded 7]))"
  by (simp add: ManageConnection_def AcceptConnection_def Let_def NewServer_def Itoa_0)

text \<open>
  The handler's one act on the transport is to close the connection it was given. The
  entry that \<open>AcceptConnection\<close> stored stays in \<open>Users\<close>, with the closed connection,
  and no later request removes an entry.
\<close>

lemma ManageConnection_closes_and_keeps_entry:
  "fst (snd (ManageConnection server (Upgraded c))) = [Close c] \<and>
   Users (fst (ManageConnection server (Upgraded c))) (Itoa (sint (NextId server))) =
     Some \<lparr>Id_u = Itoa (sint (NextId server)), Room_u = [], Connection = Some c,
           Channel_u = []\<rparr> \<and>
   dom (Users server) \<subseteq> dom (Users (serve server ups))"
  by (simp add: ManageConnection_Upgraded ManageConnection_server AcceptConnection_Users
      serve_Users_mono)

text \<open>
  Claim C3. The claim has the end of a connection remove the session's entry from the
  session table and release its transport handle, so that the identity is no longer
  registered. \<open>ManageConnection\<close> does only the second: on the new server, once the
  request whose upgrade gives connection 7 has been handled, the connection is closed and
  identity \<open>''0''\<close> is still registered, with the closed connection. The design document
  counts a receiver who is not connected as not on the server, so the entry should have
  gone.
\<close>

theorem closed_session_still_registered:
  "transport NewServer [Upgraded 7] = [Close 7] \<and>
   Users (serve NewServer [Upgraded 7]) ''0'' =
     Some \<lparr>Id_u = ''0'', Room_u = [], Connection = Some 7, Channel_u = []\<rparr>"
  by (simp add: ManageConnection_Upgraded ManageConnection_server AcceptConnection_Users
      NewServer_def Itoa_0)

text \<open>
  Claim C7. The claim has a frame that fails to decode, or whose action is not a
  recognized one, answered with an \<open>error\<close>-action message to its session, which stays
  connected. The server does neither. \<open>ReadJSON\<close> hands a decode error back to its
  caller as it is, and has no caller; the handler of a connection reads no frame and
  looks no action up: it closes the connection as soon as the handshake is done, and in
  no run does any handler write a message to any connection. So whatever a client sends
  after connecting, it gets no error message and its session is disconnected.
\<close>

theorem malformed_frame_gets_no_reply:
  "ReadJSON (Msg, Some err) = (Msg, Some err) \<and>
   snd (ManageConnection server (Upgraded c)) = ([Close c], Return None) \<and>
   (\<forall>c' m. WriteJSON c' m \<notin> set (transport server ups))"
  by (simp add: ReadJSON_def ManageConnection_Upgraded transport_no_write)

section \<open>The protocol's actions and fields\<close>

text \<open>
  Claim C8. The recognized actions are exactly the eight values \<open>connection\<close>, \<open>join\<close>,
  \<open>leave\<close>, \<open>error\<close>, \<open>private_message\<close>, \<open>room_message\<close>, \<open>rooms\<close> and
  \<open>participants\<close>; an encoded message has no member but \<open>action\<close>, \<open>user_id\<close>, \<open>room\<close>,
  \<open>message\<close>, \<open>rooms\<close> and \<open>participants\<close>, and it always has \<open>action\<close>.
\<close>

theorem actions_and_fields:
  "{a. recognized a} =
     {''connection'', ''join'', ''leave'', ''error'', ''private_message'', ''room_message'',
      ''rooms'', ''participants''} \<and>
   fst ` set (Marshal m) \<subseteq>
     {''action'', ''user_id'', ''room'', ''message'', ''rooms'', ''participants''} \<and>
   ''action'' \<in> fst ` set (Marshal m)"
proof -
  let ?names = "{''connection'', ''join'', ''leave'', ''error'', ''private_message'',
      ''room_message'', ''rooms'', ''participants''}"
  have iff: "recognized a \<longleftrightarrow> a \<in> ?names" for a
    by (simp add: recognized_def ACTIONS_def)
  have "{a. recognized a} = {a. a \<in> ?names}"
    by (rule Collect_cong) (rule iff)
  then have "{a. recognized a} = ?names"
    by (simp only: Collect_mem_eq)
  moreover have "fst ` set (Marshal m) \<subseteq>
     {''action'', ''user_id'', ''room'', ''message'', ''rooms'', ''participants''}"
    by (simp add: Marshal_def)
  moreover have "''action'' \<in> fst ` set (Marshal m)"
    by (simp add: Marshal_def)
  ultimately show ?thesis by simp
qed

section \<open>The router\<close>

lemma fan_out_recipients: "fst ` set (fan_out sender msg members) = set members - {sender}"
  by (induction members) auto

lemma fan_out_messages: "d \<in> set (fan_out sender msg members) \<Longrightarrow> snd d = msg"
  by (induction members) (auto split: if_splits)

text \<open>
  Claim C6. When a sender that is in a room broadcasts a body, the fan-out goes to every
  member of that room other than the sender, each delivery carrying the body, and to
  nobody else: in particular not to the sender.
\<close>

theorem room_broadcast_excludes_sender:
  assumes "Users server sender = Some u" and "Room_u u \<noteq> []"
    and "Rooms_s server (Room_u u) = Some r"
  shows "fst ` set (snd (RoomMessage server sender body)) = set (Participants_r r) - {sender} \<and>
    (\<forall>d \<in> set (snd (RoomMessage server sender body)).
       Action (snd d) = ''room_message'' \<and> Room (snd d) = Room_u u \<and> Message (snd d) = body)"
proof -
  let ?msg = "\<lparr>Action = ''room_message'', UserId = [], Room = Room_u u, Message = body,
      Rooms = [], Participants = []\<rparr>"
  from assms have out: "snd (RoomMessage server sender body) =
      fan_out sender ?msg (Participants_r r)"
    by (simp add: RoomMessage_def Let_def)
  have "snd d = ?msg" if "d \<in> set (fan_out sender ?msg (Participants_r r))" for d
    using that by (rule fan_out_messages)
  then show ?thesis
    unfolding out by (simp add: fan_out_recipients)
qed

theorem room_broadcast_excludes_sender_witness:
  "Users lobby_server ''0'' =
     Some \<lparr>Id_u = ''0'', Room_u = ''lobby'', Connection = Some 10, Channel_u = []\<rparr> \<and>
   Rooms_s lobby_server ''lobby'' =
     Some \<lparr>Id_r = ''lobby'', Channel_r = [], Participants_r = [''0'', ''1'', ''2'']\<rparr> \<and>
   fst ` set (snd (RoomMessage lobby_server ''0'' ''hi'')) = {''1'', ''2''} \<and>
   ''0'' \<notin> fst ` set (snd (RoomMessage lobby_server ''0'' ''hi''))"
proof -
  have u: "Users lobby_server ''0'' =
      Some \<lparr>Id_u = ''0'', Room_u = ''lobby'', Connection = Some 10, Channel_u = []\<rparr>"
    by (simp add: lobby_server_def)
  have r: "Rooms_s lobby_server ''lobby'' =
      Some \<lparr>Id_r = ''lobby'', Channel_r = [], Participants_r = [''0'', ''1'', ''2'']\<rparr>"
    by (simp add: lobby_server_def)
  have "fst ` set (snd (RoomMessage lobby_server ''0'' ''hi'')) = {''0'', ''1'', ''2''} - {''0''}"
    using room_broadcast_excludes_sender [where body = "''hi''", OF u] r by simp
  also have "\<dots> = {''1'', ''2''}"
    by auto
  finally show ?thesis
    using u r by simp
qed

end
